theory Spec2Isabelle
  imports Main
begin

section \<open>Data model\<close>

text \<open>
  The gateway is \<^verbatim>\<open>backend/src/utils/socket.ts\<close>. Identities, connection handles,
  chat identifiers and channel keys are JavaScript strings. The documents of the store
  carry the fields the handlers and controllers read and write.
\<close>

record user =
  user_id :: string
  clerkId :: string
  user_name :: string
  user_email :: string
  avatar :: string

record chat =
  chat_id :: string
  participants :: "string list"
  lastMessage :: "string option"
  lastMessageAt :: "nat option"
  createdAt :: nat

record message =
  message_id :: string
  msg_chat :: string
  sender :: string
  msg_text :: string

text \<open>The store: the three collections \<^verbatim>\<open>User\<close>, \<^verbatim>\<open>Chat\<close> and \<^verbatim>\<open>Message\<close>.\<close>

record database =
  users :: "user list"
  chats :: "chat list"
  messages :: "message list"

text \<open>
  What \<^verbatim>\<open>message.populate("sender", "name email avatar")\<close> puts in place of the
  sender reference: the selected fields of the user, or null when no user has that id.
\<close>

record sender_profile =
  profile_id :: string
  profile_name :: string
  profile_email :: string
  profile_avatar :: string

record populated_message =
  pm_message :: message
  pm_sender :: "sender_profile option"

text \<open>Payloads of the events the gateway emits.\<close>

datatype payload =
    OnlineUsers "string list"
  | UserId string
  | NewMessage populated_message
  | TypingPayload string string bool
  | ErrorMessage string

text \<open>
  The four ways the handlers address an emit:
  \<^verbatim>\<open>socket.emit\<close>, \<^verbatim>\<open>socket.broadcast.emit\<close>, \<^verbatim>\<open>io.to(room).emit\<close> and
  \<^verbatim>\<open>socket.to(room).emit\<close>.
\<close>

datatype target =
    ToSocket string
  | Broadcast string
  | ToRoom string
  | ToRoomExcept string string

record emission =
  em_target :: target
  em_event :: string
  em_payload :: payload

text \<open>A connection: \<^verbatim>\<open>socket.id\<close> and \<^verbatim>\<open>socket.data.userId\<close>.\<close>

record socket =
  sock_id :: string
  data_userId :: string

text \<open>
  The state of the gateway process: the exported \<^verbatim>\<open>onlineUsers\<close> map (a JavaScript
  \<^verbatim>\<open>Map\<close>, so insertion-ordered), the admitted connections, and the room memberships
  of the transport as pairs (room, socket id).
\<close>

record gateway =
  onlineUsers :: "(string \<times> string) list"
  sockets :: "socket list"
  rooms :: "(string \<times> string) list"

text \<open>
  The surroundings of one handler run: the identity verifier (\<^verbatim>\<open>verifyToken\<close>, which
  resolves to the session's subject or throws, here \<open>None\<close>), which calls to the store
  reject, the identifier the store gives a created message and the value of
  \<^verbatim>\<open>new Date()\<close>.
\<close>

datatype io_call =
    Call_User_findOne
  | Call_Chat_findOne
  | Call_Message_create
  | Call_Chat_save
  | Call_Message_populate
  | Call_Chat_findById

record environment =
  verifyToken :: "string \<Rightarrow> string option"
  throws :: "io_call \<Rightarrow> bool"
  new_ObjectId :: string
  new_Date :: nat

datatype thrown = Thrown

section \<open>The JavaScript Map of online users\<close>

fun Map_set :: "'k \<Rightarrow> 'v \<Rightarrow> ('k \<times> 'v) list \<Rightarrow> ('k \<times> 'v) list" where
  "Map_set k v [] = [(k, v)]"
| "Map_set k v ((k', v') # kvs) =
     (if k' = k then (k, v) # kvs else (k', v') # Map_set k v kvs)"

definition Map_delete :: "'k \<Rightarrow> ('k \<times> 'v) list \<Rightarrow> ('k \<times> 'v) list" where
  "Map_delete k kvs = filter (\<lambda>kv. fst kv \<noteq> k) kvs"

definition Map_keys :: "('k \<times> 'v) list \<Rightarrow> 'k list" where
  "Map_keys kvs = map fst kvs"

definition Map_get :: "('k \<times> 'v) list \<Rightarrow> 'k \<Rightarrow> 'v option" where
  "Map_get kvs k = map_of kvs k"

section \<open>Channel keys\<close>

definition chat_room :: "string \<Rightarrow> string" where
  "chat_room chatId = ''chat:'' @ chatId"

definition user_room :: "string \<Rightarrow> string" where
  "user_room userId = ''user:'' @ userId"

section \<open>The transport\<close>

text \<open>
  \<^verbatim>\<open>socket.join\<close> and \<^verbatim>\<open>socket.leave\<close> change the membership of one connection in one
  room; both are idempotent. When a connection closes the transport takes it out of
  every room and out of the set of connections before the disconnect handler runs.
\<close>

definition socket_join :: "gateway \<Rightarrow> socket \<Rightarrow> string \<Rightarrow> gateway" where
  "socket_join st sock room =
     (if (room, sock_id sock) \<in> set (rooms st) then st
      else st\<lparr>rooms := rooms st @ [(room, sock_id sock)]\<rparr>)"

definition socket_leave :: "gateway \<Rightarrow> socket \<Rightarrow> string \<Rightarrow> gateway" where
  "socket_leave st sock room =
     st\<lparr>rooms := filter (\<lambda>m. m \<noteq> (room, sock_id sock)) (rooms st)\<rparr>"

definition socket_leaveAll :: "gateway \<Rightarrow> socket \<Rightarrow> gateway" where
  "socket_leaveAll st sock =
     st\<lparr>rooms := filter (\<lambda>m. snd m \<noteq> sock_id sock) (rooms st),
        sockets := filter (\<lambda>s. sock_id s \<noteq> sock_id sock) (sockets st)\<rparr>"

text \<open>Whether the connection with handle \<open>sid\<close> is delivered an emit addressed to a target.\<close>

fun receives :: "gateway \<Rightarrow> string \<Rightarrow> target \<Rightarrow> bool" where
  "receives st sid (ToSocket s) = (sid = s)"
| "receives st sid (Broadcast s) = (sid \<noteq> s \<and> sid \<in> set (map sock_id (sockets st)))"
| "receives st sid (ToRoom room) = ((room, sid) \<in> set (rooms st))"
| "receives st sid (ToRoomExcept room s) = ((room, sid) \<in> set (rooms st) \<and> sid \<noteq> s)"

definition delivered :: "gateway \<Rightarrow> string \<Rightarrow> emission list \<Rightarrow> emission list" where
  "delivered st sid ems = filter (\<lambda>e. receives st sid (em_target e)) ems"

section \<open>The store\<close>

definition User_findOne :: "environment \<Rightarrow> database \<Rightarrow> string \<Rightarrow> thrown + user option" where
  "User_findOne env db cid =
     (if throws env Call_User_findOne then Inl Thrown
      else Inr (find (\<lambda>u. clerkId u = cid) (users db)))"

definition Chat_findOne ::
  "environment \<Rightarrow> database \<Rightarrow> string \<Rightarrow> string \<Rightarrow> thrown + chat option" where
  "Chat_findOne env db chatId userId =
     (if throws env Call_Chat_findOne then Inl Thrown
      else Inr (find (\<lambda>c. chat_id c = chatId \<and> userId \<in> set (participants c)) (chats db)))"

definition Chat_findById :: "environment \<Rightarrow> database \<Rightarrow> string \<Rightarrow> thrown + chat option" where
  "Chat_findById env db chatId =
     (if throws env Call_Chat_findById then Inl Thrown
      else Inr (find (\<lambda>c. chat_id c = chatId) (chats db)))"

definition Message_create ::
  "environment \<Rightarrow> database \<Rightarrow> string \<Rightarrow> string \<Rightarrow> string \<Rightarrow> thrown + (message \<times> database)" where
  "Message_create env db chatId userId txt =
     (if throws env Call_Message_create then Inl Thrown
      else let m = \<lparr>message_id = new_ObjectId env, msg_chat = chatId,
                     sender = userId, msg_text = txt\<rparr>
           in Inr (m, db\<lparr>messages := messages db @ [m]\<rparr>))"

definition Chat_save :: "environment \<Rightarrow> database \<Rightarrow> chat \<Rightarrow> thrown + database" where
  "Chat_save env db c =
     (if throws env Call_Chat_save then Inl Thrown
      else Inr (db\<lparr>chats := map (\<lambda>d. if chat_id d = chat_id c then c else d) (chats db)\<rparr>))"

definition Message_populate ::
  "environment \<Rightarrow> database \<Rightarrow> message \<Rightarrow> thrown + populated_message" where
  "Message_populate env db m =
     (if throws env Call_Message_populate then Inl Thrown
      else Inr \<lparr>pm_message = m,
                pm_sender = map_option
                  (\<lambda>u. \<lparr>profile_id = user_id u, profile_name = user_name u,
                        profile_email = user_email u, profile_avatar = avatar u\<rparr>)
                  (find (\<lambda>u. user_id u = sender m) (users db))\<rparr>)"

section \<open>Admission\<close>

text \<open>
  The middleware registered with \<^verbatim>\<open>io.use\<close>. The handshake's token is absent
  (\<open>None\<close>) or a string; \<^verbatim>\<open>!token\<close> holds for an absent and for an empty one. The
  result is the argument of \<^verbatim>\<open>next\<close> together with the tokens handed to
  \<^verbatim>\<open>verifyToken\<close> on the way.
\<close>

datatype admission = Admit string | Reject string

definition io_use ::
  "environment \<Rightarrow> database \<Rightarrow> string option \<Rightarrow> admission \<times> string list" where
  "io_use env db token =
     (case token of
        None \<Rightarrow> (Reject ''Unauthorized'', [])
      | Some t \<Rightarrow>
          if t = [] then (Reject ''Unauthorized'', [])
          else (case verifyToken env t of
                  None \<Rightarrow> (Reject ''Unauthorized'', [t])
                | Some sub \<Rightarrow>
                    (case User_findOne env db sub of
                       Inl Thrown \<Rightarrow> (Reject ''Unauthorized'', [t])
                     | Inr None \<Rightarrow> (Reject ''User not found!'', [t])
                     | Inr (Some u) \<Rightarrow> (Admit (user_id u), [t]))))"

section \<open>Event handlers\<close>

text \<open>The handler of \<^verbatim>\<open>io.on("connection")\<close>, in the order of its four statements.\<close>

definition on_connection :: "gateway \<Rightarrow> socket \<Rightarrow> gateway \<times> emission list" where
  "on_connection st sock =
     (let userId = data_userId sock;
          e1 = \<lparr>em_target = ToSocket (sock_id sock), em_event = ''online-users'',
                em_payload = OnlineUsers (Map_keys (onlineUsers st))\<rparr>;
          st1 = st\<lparr>onlineUsers := Map_set userId (sock_id sock) (onlineUsers st)\<rparr>;
          e2 = \<lparr>em_target = Broadcast (sock_id sock), em_event = ''user-online'',
                em_payload = UserId userId\<rparr>;
          st2 = socket_join st1 sock (user_room userId)
      in (st2, [e1, e2]))"

definition on_join_chat :: "gateway \<Rightarrow> socket \<Rightarrow> string \<Rightarrow> gateway" where
  "on_join_chat st sock chatId = socket_join st sock (chat_room chatId)"

definition on_leave_chat :: "gateway \<Rightarrow> socket \<Rightarrow> string \<Rightarrow> gateway" where
  "on_leave_chat st sock chatId = socket_leave st sock (chat_room chatId)"

text \<open>
  The body of the \<^verbatim>\<open>try\<close> of the send-message handler. \<open>Inl\<close> is a throw, with the
  store as the calls before it left it; \<open>Inr\<close> is a normal end, also the early return.
\<close>

definition send_message_try ::
  "environment \<Rightarrow> database \<Rightarrow> socket \<Rightarrow> string \<Rightarrow> string
     \<Rightarrow> database + (database \<times> emission list)" where
  "send_message_try env db sock chatId txt =
     (let userId = data_userId sock in
      case Chat_findOne env db chatId userId of
        Inl Thrown \<Rightarrow> Inl db
      | Inr None \<Rightarrow>
          Inr (db, [\<lparr>em_target = ToSocket (sock_id sock), em_event = ''socket-error'',
                     em_payload = ErrorMessage ''Chat not found''\<rparr>])
      | Inr (Some c) \<Rightarrow>
          (case Message_create env db chatId userId txt of
             Inl Thrown \<Rightarrow> Inl db
           | Inr (m, db1) \<Rightarrow>
               (let c' = c\<lparr>lastMessage := Some (message_id m),
                           lastMessageAt := Some (new_Date env)\<rparr> in
                case Chat_save env db1 c' of
                  Inl Thrown \<Rightarrow> Inl db1
                | Inr db2 \<Rightarrow>
                    (case Message_populate env db2 m of
                       Inl Thrown \<Rightarrow> Inl db2
                     | Inr pm \<Rightarrow>
                         Inr (db2,
                           \<lparr>em_target = ToRoom (chat_room chatId), em_event = ''new-message'',
                            em_payload = NewMessage pm\<rparr> #
                           map (\<lambda>participant.
                                  \<lparr>em_target = ToRoom (user_room participant),
                                   em_event = ''new-message'',
                                   em_payload = NewMessage pm\<rparr>)
                               (participants c'))))))"

definition on_send_message ::
  "environment \<Rightarrow> database \<Rightarrow> socket \<Rightarrow> string \<Rightarrow> string \<Rightarrow> database \<times> emission list" where
  "on_send_message env db sock chatId txt =
     (case send_message_try env db sock chatId txt of
        Inr r \<Rightarrow> r
      | Inl db' \<Rightarrow>
          (db', [\<lparr>em_target = ToSocket (sock_id sock), em_event = ''error'',
                  em_payload = ErrorMessage ''Failed to send message''\<rparr>]))"

text \<open>
  The typing handler: the emit to the chat room comes first, then the lookup, whose
  failure is swallowed.
\<close>

definition on_typing ::
  "environment \<Rightarrow> database \<Rightarrow> socket \<Rightarrow> string \<Rightarrow> bool \<Rightarrow> emission list" where
  "on_typing env db sock chatId isTyping =
     (let userId = data_userId sock;
          typePayload = TypingPayload userId chatId isTyping;
          e1 = \<lparr>em_target = ToRoomExcept (chat_room chatId) (sock_id sock),
                em_event = ''typing'', em_payload = typePayload\<rparr>
      in e1 #
         (case Chat_findById env db chatId of
            Inl Thrown \<Rightarrow> []
          | Inr None \<Rightarrow> []
          | Inr (Some c) \<Rightarrow>
              (case find (\<lambda>p. p \<noteq> userId) (participants c) of
                 None \<Rightarrow> []
               | Some otherParticipant \<Rightarrow>
                   [\<lparr>em_target = ToRoom (user_room otherParticipant),
                     em_event = ''typing'', em_payload = typePayload\<rparr>])))"

definition on_disconnect :: "gateway \<Rightarrow> socket \<Rightarrow> gateway \<times> emission list" where
  "on_disconnect st sock =
     (let userId = data_userId sock;
          st1 = st\<lparr>onlineUsers := Map_delete userId (onlineUsers st)\<rparr>
      in (st1, [\<lparr>em_target = Broadcast (sock_id sock), em_event = ''user-offline'',
                 em_payload = UserId userId\<rparr>]))"

section \<open>Connection life cycle\<close>

text \<open>
  An admitted connection enters the set of connections and the connection handler runs;
  a closing connection is taken out of its rooms and of the set of connections and the
  disconnect handler runs. A handshake runs the middleware, and the connection handler
  only when the middleware admits.
\<close>

definition transport_connect :: "gateway \<Rightarrow> socket \<Rightarrow> gateway \<times> emission list" where
  "transport_connect st sock = on_connection (st\<lparr>sockets := sockets st @ [sock]\<rparr>) sock"

definition transport_disconnect :: "gateway \<Rightarrow> socket \<Rightarrow> gateway \<times> emission list" where
  "transport_disconnect st sock = on_disconnect (socket_leaveAll st sock) sock"

definition handshake ::
  "environment \<Rightarrow> database \<Rightarrow> gateway \<Rightarrow> string \<Rightarrow> string option
     \<Rightarrow> gateway \<times> emission list" where
  "handshake env db st sid token =
     (case fst (io_use env db token) of
        Reject reason \<Rightarrow> (st, [])
      | Admit userId \<Rightarrow> transport_connect st \<lparr>sock_id = sid, data_userId = userId\<rparr>)"

definition initial :: gateway where
  "initial = \<lparr>onlineUsers = [], sockets = [], rooms = []\<rparr>"

text \<open>
  What happens to the gateway, one event at a time. The transport gives a new connection
  a fresh handle, and only an admitted, still open connection sends events or closes;
  an event that breaks this is not a step (\<open>None\<close>). The send-message and typing
  handlers read and write the store and emit, and leave the gateway state alone.
\<close>

datatype gateway_event =
    Connection socket
  | Join_chat socket string
  | Leave_chat socket string
  | Send_message socket string string
  | Typing socket string bool
  | Disconnect socket

fun step :: "gateway \<Rightarrow> gateway_event \<Rightarrow> gateway option" where
  "step st (Connection sock) =
     (if sock_id sock \<in> set (map sock_id (sockets st)) then None
      else Some (fst (transport_connect st sock)))"
| "step st (Join_chat sock chatId) =
     (if sock \<in> set (sockets st) then Some (on_join_chat st sock chatId) else None)"
| "step st (Leave_chat sock chatId) =
     (if sock \<in> set (sockets st) then Some (on_leave_chat st sock chatId) else None)"
| "step st (Send_message sock chatId txt) =
     (if sock \<in> set (sockets st) then Some st else None)"
| "step st (Typing sock chatId isTyping) =
     (if sock \<in> set (sockets st) then Some st else None)"
| "step st (Disconnect sock) =
     (if sock \<in> set (sockets st) then Some (fst (transport_disconnect st sock)) else None)"

fun run :: "gateway \<Rightarrow> gateway_event list \<Rightarrow> gateway option" where
  "run st [] = Some st"
| "run st (e # es) = (case step st e of None \<Rightarrow> None | Some st' \<Rightarrow> run st' es)"

text \<open>
  The routing invariant: handles are unique, every connection sits in the personal room
  of its identity, and a membership in a room with the \<^verbatim>\<open>user:\<close> tag is the membership of
  a connection of that identity.
\<close>

definition is_user_room :: "string \<Rightarrow> bool" where
  "is_user_room room = (take 5 room = ''user:'')"

definition gw_inv :: "gateway \<Rightarrow> bool" where
  "gw_inv st =
     (distinct (map sock_id (sockets st)) \<and>
      (\<forall>sock \<in> set (sockets st). (user_room (data_userId sock), sock_id sock) \<in> set (rooms st)) \<and>
      (\<forall>m \<in> set (rooms st). \<exists>sock \<in> set (sockets st).
          sock_id sock = snd m \<and>
          (is_user_room (fst m) \<longrightarrow> fst m = user_room (data_userId sock))))"

section \<open>A concrete scenario\<close>

text \<open>
  Two users, A (\<open>u1\<close>) and B (\<open>u2\<close>), a chat \<open>c1\<close> between them and a chat \<open>c2\<close> that does
  not list A. In \<open>scenario_gateway\<close> both are connected and B views \<open>c1\<close>; in
  \<open>two_sessions\<close> A is connected twice; in \<open>two_devices_in_chat\<close> A and B are
  connected, A connects a second time and views \<open>c1\<close> on that second connection.
\<close>

definition alice :: socket where
  "alice = \<lparr>sock_id = ''s1'', data_userId = ''u1''\<rparr>"

definition bob :: socket where
  "bob = \<lparr>sock_id = ''s2'', data_userId = ''u2''\<rparr>"

definition alice_again :: socket where
  "alice_again = \<lparr>sock_id = ''s3'', data_userId = ''u1''\<rparr>"

definition scenario_env :: environment where
  "scenario_env =
     \<lparr>verifyToken = (\<lambda>t. if t = ''token-a'' then Some ''clerk-a'' else None),
      throws = (\<lambda>call. False), new_ObjectId = ''m1'', new_Date = 1000\<rparr>"

definition failing_lookup_env :: environment where
  "failing_lookup_env = scenario_env\<lparr>throws := (\<lambda>call. call = Call_Chat_findOne)\<rparr>"

definition scenario_db :: database where
  "scenario_db =
     \<lparr>users = [\<lparr>user_id = ''u1'', clerkId = ''clerk-a'', user_name = ''A'',
                 user_email = ''a@x'', avatar = []\<rparr>,
               \<lparr>user_id = ''u2'', clerkId = ''clerk-b'', user_name = ''B'',
                 user_email = ''b@x'', avatar = []\<rparr>],
      chats = [\<lparr>chat_id = ''c1'', participants = [''u1'', ''u2''], lastMessage = None,
                 lastMessageAt = None, createdAt = 1\<rparr>,
               \<lparr>chat_id = ''c2'', participants = [''u2'', ''u3''], lastMessage = None,
                 lastMessageAt = None, createdAt = 2\<rparr>],
      messages = []\<rparr>"

definition scenario_gateway :: gateway where
  "scenario_gateway =
     on_join_chat (fst (transport_connect (fst (transport_connect initial alice)) bob)) bob ''c1''"

definition two_sessions :: gateway where
  "two_sessions = fst (transport_connect (fst (transport_connect initial alice)) alice_again)"

definition two_devices_in_chat :: gateway where
  "two_devices_in_chat =
     on_join_chat
       (fst (transport_connect (fst (transport_connect (fst (transport_connect initial alice)) bob))
          alice_again))
       alice_again ''c1''"

definition failing_findById_env :: environment where
  "failing_findById_env = scenario_env\<lparr>throws := (\<lambda>call. call = Call_Chat_findById)\<rparr>"

section \<open>Auxiliary facts\<close>

subsection \<open>Channel keys\<close>

lemma chat_room_neq_user_room: "chat_room c \<noteq> user_room u"
  by (simp add: chat_room_def user_room_def)

lemma user_room_neq_chat_room: "user_room u \<noteq> chat_room c"
  by (simp add: chat_room_def user_room_def)

lemma user_room_inj: "user_room u = user_room v \<longleftrightarrow> u = v"
  by (simp add: user_room_def)

lemma is_user_room_user_room: "is_user_room (user_room u)"
  by (simp add: is_user_room_def user_room_def)

lemma not_is_user_room_chat_room: "\<not> is_user_room (chat_room c)"
  by (simp add: is_user_room_def chat_room_def)

subsection \<open>Lists and the online-users map\<close>

lemma find_holds: "find P xs = Some x \<Longrightarrow> P x \<and> x \<in> set xs"
  by (induction xs) (auto split: if_splits)

lemma find_after_prefix:
  "\<forall>y \<in> set pre. \<not> P y \<Longrightarrow> P x \<Longrightarrow> find P (pre @ x # post) = Some x"
  by (induction pre) auto

lemma find_None_iff_all: "find P xs = None \<longleftrightarrow> (\<forall>x \<in> set xs. \<not> P x)"
  by (induction xs) auto

lemma find_map_replace:
  assumes "c \<in> set cs" and "f c = k" and "f c' = k"
  shows "find (\<lambda>d. f d = k) (map (\<lambda>d. if f d = k then c' else d) cs) = Some c'"
  using assms by (induction cs) auto

lemma filter_eq_distinct:
  "distinct xs \<Longrightarrow> x \<in> set xs \<Longrightarrow> filter (\<lambda>y. y = x) xs = [x]"
  by (induction xs) (auto simp: filter_empty_conv)

lemma Map_get_Map_set: "Map_get (Map_set k v kvs) k = Some v"
  by (induction kvs) (auto simp: Map_get_def)

lemma Map_get_Map_delete: "Map_get (Map_delete k kvs) k = None"
  by (induction kvs) (auto simp: Map_get_def Map_delete_def)

lemma Map_keys_Map_set: "set (Map_keys (Map_set k v kvs)) = insert k (set (Map_keys kvs))"
proof (induction kvs)
  case Nil
  show ?case by (simp add: Map_keys_def)
next
  case (Cons kv kvs)
  obtain k' v' where kv: "kv = (k', v')" by (cases kv)
  from Cons show ?case unfolding kv Map_keys_def by (cases "k' = k") auto
qed

lemma Map_keys_Map_delete: "set (Map_keys (Map_delete k kvs)) = set (Map_keys kvs) - {k}"
  by (auto simp: Map_keys_def Map_delete_def)

lemma Map_keys_Map_get: "k \<in> set (Map_keys kvs) \<longleftrightarrow> Map_get kvs k \<noteq> None"
  by (induction kvs) (auto simp: Map_keys_def Map_get_def)

subsection \<open>What connecting and disconnecting do to the state\<close>

lemma onlineUsers_transport_connect:
  "onlineUsers (fst (transport_connect st sock)) =
     Map_set (data_userId sock) (sock_id sock) (onlineUsers st)"
  by (simp add: transport_connect_def on_connection_def socket_join_def Let_def)

lemma onlineUsers_transport_disconnect:
  "onlineUsers (fst (transport_disconnect st sock)) =
     Map_delete (data_userId sock) (onlineUsers st)"
  by (simp add: transport_disconnect_def on_disconnect_def socket_leaveAll_def Let_def)

lemma sockets_transport_disconnect:
  "sockets (fst (transport_disconnect st sock)) =
     filter (\<lambda>s. sock_id s \<noteq> sock_id sock) (sockets st)"
  by (simp add: transport_disconnect_def on_disconnect_def socket_leaveAll_def Let_def)

lemma emissions_transport_connect:
  "snd (transport_connect st sock) =
     [\<lparr>em_target = ToSocket (sock_id sock), em_event = ''online-users'',
       em_payload = OnlineUsers (Map_keys (onlineUsers st))\<rparr>,
      \<lparr>em_target = Broadcast (sock_id sock), em_event = ''user-online'',
       em_payload = UserId (data_userId sock)\<rparr>]"
  by (simp add: transport_connect_def on_connection_def Let_def)

lemma emissions_transport_disconnect:
  "snd (transport_disconnect st sock) =
     [\<lparr>em_target = Broadcast (sock_id sock), em_event = ''user-offline'',
       em_payload = UserId (data_userId sock)\<rparr>]"
  by (simp add: transport_disconnect_def on_disconnect_def Let_def)

subsection \<open>The routing invariant holds after every run from the initial state\<close>

lemma gw_inv_initial: "gw_inv initial"
  by (simp add: gw_inv_def initial_def)

lemma gw_inv_connect:
  assumes "gw_inv st" and "sock_id sock \<notin> set (map sock_id (sockets st))"
  shows "gw_inv (fst (transport_connect st sock))"
  using assms
  unfolding gw_inv_def transport_connect_def on_connection_def socket_join_def Let_def
  by (auto simp: is_user_room_user_room)

lemma gw_inv_join:
  assumes "gw_inv st" and "sock \<in> set (sockets st)"
  shows "gw_inv (on_join_chat st sock chatId)"
  using assms
  unfolding gw_inv_def on_join_chat_def socket_join_def
  by (auto simp: not_is_user_room_chat_room)

lemma gw_inv_leave:
  assumes "gw_inv st"
  shows "gw_inv (on_leave_chat st sock chatId)"
  using assms
  unfolding gw_inv_def on_leave_chat_def socket_leave_def
  by (auto simp: chat_room_neq_user_room user_room_neq_chat_room)

lemma gw_inv_disconnect:
  assumes "gw_inv st"
  shows "gw_inv (fst (transport_disconnect st sock))"
proof -
  let ?st' = "fst (transport_disconnect st sock)"
  have s: "sockets ?st' = filter (\<lambda>s. sock_id s \<noteq> sock_id sock) (sockets st)"
    and r: "rooms ?st' = filter (\<lambda>m. snd m \<noteq> sock_id sock) (rooms st)"
    by (simp_all add: transport_disconnect_def on_disconnect_def socket_leaveAll_def Let_def)
  from assms have d: "distinct (map sock_id (sockets st))"
    and p: "\<forall>k \<in> set (sockets st). (user_room (data_userId k), sock_id k) \<in> set (rooms st)"
    and m: "\<forall>m \<in> set (rooms st). \<exists>k \<in> set (sockets st).
          sock_id k = snd m \<and> (is_user_room (fst m) \<longrightarrow> fst m = user_room (data_userId k))"
    by (simp_all add: gw_inv_def)
  have "distinct (map sock_id (sockets ?st'))"
    using d by (simp add: s distinct_map_filter)
  moreover have "\<forall>k \<in> set (sockets ?st'). (user_room (data_userId k), sock_id k) \<in> set (rooms ?st')"
    using p by (simp add: s r)
  moreover have "\<forall>m \<in> set (rooms ?st'). \<exists>k \<in> set (sockets ?st').
          sock_id k = snd m \<and> (is_user_room (fst m) \<longrightarrow> fst m = user_room (data_userId k))"
  proof
    fix x assume "x \<in> set (rooms ?st')"
    then have x: "x \<in> set (rooms st)" and n: "snd x \<noteq> sock_id sock" by (simp_all add: r)
    from m x obtain k where "k \<in> set (sockets st)" "sock_id k = snd x"
      "is_user_room (fst x) \<longrightarrow> fst x = user_room (data_userId k)" by blast
    with n show "\<exists>k \<in> set (sockets ?st').
          sock_id k = snd x \<and> (is_user_room (fst x) \<longrightarrow> fst x = user_room (data_userId k))"
      by (auto simp: s)
  qed
  ultimately show ?thesis unfolding gw_inv_def by blast
qed

lemma step_gw_inv:
  assumes "gw_inv st" and "step st e = Some st'"
  shows "gw_inv st'"
  using assms
  by (cases e)
     (auto simp: gw_inv_connect gw_inv_join gw_inv_leave gw_inv_disconnect split: if_splits)

lemma run_gw_inv: "gw_inv st \<Longrightarrow> run st es = Some st' \<Longrightarrow> gw_inv st'"
proof (induction es arbitrary: st)
  case Nil
  then show ?case by simp
next
  case (Cons e es)
  then show ?case by (auto split: option.splits dest: step_gw_inv)
qed

lemma run_initial_gw_inv: "run initial es = Some st \<Longrightarrow> gw_inv st"
  using run_gw_inv[OF gw_inv_initial] .

lemma personal_room_owner:
  assumes "gw_inv st" and "sock \<in> set (sockets st)"
  shows "(user_room u, sock_id sock) \<in> set (rooms st) \<longleftrightarrow> u = data_userId sock"
proof
  assume "(user_room u, sock_id sock) \<in> set (rooms st)"
  with assms(1) obtain k where k: "k \<in> set (sockets st)" "sock_id k = sock_id sock"
    "user_room u = user_room (data_userId k)"
    unfolding gw_inv_def by (fastforce simp: is_user_room_user_room)
  from assms(1) have "inj_on sock_id (set (sockets st))"
    by (simp add: gw_inv_def distinct_map)
  with k(1,2) assms(2) have "k = sock" by (simp add: inj_on_def)
  with k(3) show "u = data_userId sock" by (simp add: user_room_inj)
next
  assume "u = data_userId sock"
  with assms show "(user_room u, sock_id sock) \<in> set (rooms st)"
    by (simp add: gw_inv_def)
qed

subsection \<open>The send path when nothing throws\<close>

lemma Chat_findOne_found:
  assumes "Chat_findOne env db chatId userId = Inr (Some c)"
  shows "c \<in> set (chats db) \<and> chat_id c = chatId \<and> userId \<in> set (participants c)"
  using assms by (auto simp: Chat_findOne_def split: if_splits dest: find_holds)

lemma send_message_try_found:
  assumes "Chat_findOne env db chatId (data_userId sock) = Inr (Some c)"
    and "\<not> throws env Call_Message_create" and "\<not> throws env Call_Chat_save"
    and "\<not> throws env Call_Message_populate"
  shows "on_send_message env db sock chatId txt =
    (db\<lparr>messages := messages db @
            [\<lparr>message_id = new_ObjectId env, msg_chat = chatId,
              sender = data_userId sock, msg_text = txt\<rparr>],
        chats := map (\<lambda>d. if chat_id d = chat_id c
                       then c\<lparr>lastMessage := Some (new_ObjectId env),
                              lastMessageAt := Some (new_Date env)\<rparr>
                       else d) (chats db)\<rparr>,
     \<lparr>em_target = ToRoom (chat_room chatId), em_event = ''new-message'',
      em_payload = NewMessage
        \<lparr>pm_message = \<lparr>message_id = new_ObjectId env, msg_chat = chatId,
                         sender = data_userId sock, msg_text = txt\<rparr>,
         pm_sender = map_option
           (\<lambda>u. \<lparr>profile_id = user_id u, profile_name = user_name u,
                 profile_email = user_email u, profile_avatar = avatar u\<rparr>)
           (find (\<lambda>u. user_id u = data_userId sock) (users db))\<rparr>\<rparr> #
     map (\<lambda>participant.
            \<lparr>em_target = ToRoom (user_room participant), em_event = ''new-message'',
             em_payload = NewMessage
               \<lparr>pm_message = \<lparr>message_id = new_ObjectId env, msg_chat = chatId,
                                sender = data_userId sock, msg_text = txt\<rparr>,
                pm_sender = map_option
                  (\<lambda>u. \<lparr>profile_id = user_id u, profile_name = user_name u,
                        profile_email = user_email u, profile_avatar = avatar u\<rparr>)
                  (find (\<lambda>u. user_id u = data_userId sock) (users db))\<rparr>\<rparr>)
         (participants c))"
  using assms
  by (simp add: on_send_message_def send_message_try_def Message_create_def Chat_save_def
        Message_populate_def Let_def)

subsection \<open>The scenario, evaluated\<close>

lemmas scenario_defs = alice_def bob_def alice_again_def scenario_env_def failing_lookup_env_def
  failing_findById_env_def scenario_db_def scenario_gateway_def two_sessions_def initial_def transport_connect_def
  transport_disconnect_def on_connection_def on_disconnect_def on_join_chat_def socket_join_def
  socket_leaveAll_def Map_keys_def Map_get_def Map_delete_def chat_room_def user_room_def
  Chat_findOne_def Chat_findById_def User_findOne_def delivered_def

lemma scenario_gateway_value:
  "scenario_gateway =
     \<lparr>onlineUsers = [(''u1'', ''s1''), (''u2'', ''s2'')],
      sockets = [alice, bob],
      rooms = [(''user:u1'', ''s1''), (''user:u2'', ''s2''), (''chat:c1'', ''s2'')]\<rparr>"
  by (simp add: scenario_defs Let_def)

lemma two_sessions_value:
  "two_sessions =
     \<lparr>onlineUsers = [(''u1'', ''s3'')],
      sockets = [alice, alice_again],
      rooms = [(''user:u1'', ''s1''), (''user:u1'', ''s3'')]\<rparr>"
  by (simp add: scenario_defs Let_def)

lemma run_scenario_gateway:
  "run initial [Connection alice, Connection bob, Join_chat bob ''c1''] = Some scenario_gateway"
  by (simp add: scenario_defs Let_def)

lemma run_two_sessions:
  "run initial [Connection alice, Connection alice_again] = Some two_sessions"
  by (simp add: scenario_defs Let_def)

lemma two_devices_in_chat_value:
  "two_devices_in_chat =
     \<lparr>onlineUsers = [(''u1'', ''s3''), (''u2'', ''s2'')],
      sockets = [alice, bob, alice_again],
      rooms = [(''user:u1'', ''s1''), (''user:u2'', ''s2''), (''user:u1'', ''s3''),
               (''chat:c1'', ''s3'')]\<rparr>"
  by (simp add: two_devices_in_chat_def scenario_defs Let_def)

lemma run_two_devices_in_chat:
  "run initial [Connection alice, Connection bob, Connection alice_again,
                Join_chat alice_again ''c1''] = Some two_devices_in_chat"
  by (simp add: two_devices_in_chat_def scenario_defs Let_def)

section \<open>Rejected sends\<close>

text \<open>
  Claim C1, as the handler implements it. When no chat of the store has the requested
  identifier and lists the sender among its participants, a send-message request leaves
  the store as it was (no message is created, no chat changes) and emits exactly one
  event, addressed to the sender's connection alone; every other connection is delivered
  nothing. That event is \<^verbatim>\<open>socket-error\<close> ("Chat not found") when the lookup completes,
  and the generic \<^verbatim>\<open>error\<close> ("Failed to send message") when the lookup call itself throws
  and the handler's \<^verbatim>\<open>catch\<close> runs.
\<close>

theorem send_without_participation_rejected:
  assumes "\<forall>c \<in> set (chats db). chat_id c = chatId \<longrightarrow> data_userId sock \<notin> set (participants c)"
  shows "fst (on_send_message env db sock chatId txt) = db \<and>
         snd (on_send_message env db sock chatId txt) =
           [\<lparr>em_target = ToSocket (sock_id sock),
             em_event = (if throws env Call_Chat_findOne then ''error'' else ''socket-error''),
             em_payload = ErrorMessage (if throws env Call_Chat_findOne
                                        then ''Failed to send message'' else ''Chat not found'')\<rparr>] \<and>
         length (delivered st (sock_id sock) (snd (on_send_message env db sock chatId txt))) = 1 \<and>
         (\<forall>sid. sid \<noteq> sock_id sock \<longrightarrow>
            delivered st sid (snd (on_send_message env db sock chatId txt)) = [])"
proof -
  from assms have "find (\<lambda>c. chat_id c = chatId \<and> data_userId sock \<in> set (participants c))
      (chats db) = None"
    by (auto simp: find_None_iff_all)
  then show ?thesis
    by (simp add: on_send_message_def send_message_try_def Chat_findOne_def Let_def delivered_def)
qed

text \<open>
  In the scenario A sends to \<open>c2\<close>, which does not list A: the store is unchanged, A's
  connection gets the one \<^verbatim>\<open>socket-error\<close>, B's connection gets nothing.
\<close>

theorem send_without_participation_rejected_witness:
  "find (\<lambda>c. chat_id c = ''c2'' \<and> ''u1'' \<in> set (participants c)) (chats scenario_db) = None \<and>
   on_send_message scenario_env scenario_db alice ''c2'' ''hi'' =
     (scenario_db, [\<lparr>em_target = ToSocket ''s1'', em_event = ''socket-error'',
                     em_payload = ErrorMessage ''Chat not found''\<rparr>]) \<and>
   delivered scenario_gateway ''s2''
     (snd (on_send_message scenario_env scenario_db alice ''c2'' ''hi'')) = []"
proof -
  have a: "\<forall>c \<in> set (chats scenario_db).
      chat_id c = ''c2'' \<longrightarrow> data_userId alice \<notin> set (participants c)"
    by (simp add: scenario_db_def alice_def)
  have b: "find (\<lambda>c. chat_id c = ''c2'' \<and> ''u1'' \<in> set (participants c)) (chats scenario_db) = None"
    by (simp add: scenario_db_def)
  have c: "\<not> throws scenario_env Call_Chat_findOne" by (simp add: scenario_env_def)
  show ?thesis
    using b c send_without_participation_rejected[OF a, of scenario_env "''hi''" scenario_gateway]
    by (auto simp: alice_def prod_eq_iff)
qed

text \<open>
  The same request while the lookup call throws: the single event A's connection gets is
  \<^verbatim>\<open>error\<close>, not \<^verbatim>\<open>socket-error\<close>.
\<close>

theorem send_lookup_throws_generic_error:
  "find (\<lambda>c. chat_id c = ''c2'' \<and> ''u1'' \<in> set (participants c)) (chats scenario_db) = None \<and>
   on_send_message failing_lookup_env scenario_db alice ''c2'' ''hi'' =
     (scenario_db, [\<lparr>em_target = ToSocket ''s1'', em_event = ''error'',
                     em_payload = ErrorMessage ''Failed to send message''\<rparr>])"
  by (simp add: on_send_message_def send_message_try_def scenario_defs)

section \<open>Fan-out of a successful send\<close>

text \<open>
  Claim C2. A send succeeds when the lookup finds a chat \<open>c\<close> listing the sender and none
  of the later calls throws. Then there is one populated message \<open>pm\<close>: its message is
  the one just stored, and its sender is the id, name, email and avatar of the user of
  the store whose id is the sender's identity (null when the store has no such user).
  The emits are exactly: one \<^verbatim>\<open>new-message\<close> with \<open>pm\<close> to
  the chat's room, followed by one \<^verbatim>\<open>new-message\<close> with \<open>pm\<close> to the personal room of each
  participant. With the participants pairwise distinct, exactly one emit addresses the
  chat room and exactly one addresses each participant's personal room. In every state
  the gateway reaches by a run of events from its start, a connection of a participant
  that is joined to the chat's room is delivered the message twice, once through each
  room.
\<close>

theorem send_fans_out_to_chat_and_personal_rooms:
  assumes "run initial es = Some st"
    and "Chat_findOne env db chatId (data_userId sock) = Inr (Some c)"
    and "\<not> throws env Call_Message_create" and "\<not> throws env Call_Chat_save"
    and "\<not> throws env Call_Message_populate"
    and "distinct (participants c)"
  shows "\<exists>pm. pm_message pm \<in> set (messages (fst (on_send_message env db sock chatId txt))) \<and>
           pm_message pm = \<lparr>message_id = new_ObjectId env, msg_chat = chatId,
                             sender = data_userId sock, msg_text = txt\<rparr> \<and>
           pm_sender pm =
             map_option
               (\<lambda>u. \<lparr>profile_id = user_id u, profile_name = user_name u,
                     profile_email = user_email u, profile_avatar = avatar u\<rparr>)
               (find (\<lambda>u. user_id u = data_userId sock) (users db)) \<and>
           Message_populate env (fst (on_send_message env db sock chatId txt)) (pm_message pm)
             = Inr pm \<and>
           snd (on_send_message env db sock chatId txt) =
             \<lparr>em_target = ToRoom (chat_room chatId), em_event = ''new-message'',
              em_payload = NewMessage pm\<rparr> #
             map (\<lambda>p. \<lparr>em_target = ToRoom (user_room p), em_event = ''new-message'',
                       em_payload = NewMessage pm\<rparr>) (participants c) \<and>
           length (filter (\<lambda>e. em_target e = ToRoom (chat_room chatId))
                     (snd (on_send_message env db sock chatId txt))) = 1 \<and>
           (\<forall>p \<in> set (participants c).
              length (filter (\<lambda>e. em_target e = ToRoom (user_room p))
                        (snd (on_send_message env db sock chatId txt))) = 1) \<and>
           (\<forall>k \<in> set (sockets st).
              data_userId k \<in> set (participants c) \<and>
              (chat_room chatId, sock_id k) \<in> set (rooms st) \<longrightarrow>
              delivered st (sock_id k) (snd (on_send_message env db sock chatId txt)) =
                [\<lparr>em_target = ToRoom (chat_room chatId), em_event = ''new-message'',
                  em_payload = NewMessage pm\<rparr>,
                 \<lparr>em_target = ToRoom (user_room (data_userId k)), em_event = ''new-message'',
                  em_payload = NewMessage pm\<rparr>])"
proof -
  let ?m = "\<lparr>message_id = new_ObjectId env, msg_chat = chatId,
              sender = data_userId sock, msg_text = txt\<rparr>"
  let ?pm = "\<lparr>pm_message = ?m,
         pm_sender = map_option
           (\<lambda>u. \<lparr>profile_id = user_id u, profile_name = user_name u,
                 profile_email = user_email u, profile_avatar = avatar u\<rparr>)
           (find (\<lambda>u. user_id u = data_userId sock) (users db))\<rparr>"
  let ?ems = "\<lparr>em_target = ToRoom (chat_room chatId), em_event = ''new-message'',
              em_payload = NewMessage ?pm\<rparr> #
             map (\<lambda>p. \<lparr>em_target = ToRoom (user_room p), em_event = ''new-message'',
                       em_payload = NewMessage ?pm\<rparr>) (participants c)"
  have inv: "gw_inv st" using assms(1) by (rule run_initial_gw_inv)
  have run: "snd (on_send_message env db sock chatId txt) = ?ems"
    and msgs: "messages (fst (on_send_message env db sock chatId txt)) = messages db @ [?m]"
    by (simp_all add: send_message_try_found[OF assms(2-5)])
  have pop: "Message_populate env (fst (on_send_message env db sock chatId txt)) ?m = Inr ?pm"
    using assms(5) by (simp add: Message_populate_def send_message_try_found[OF assms(2-5)])
  have one_chat: "length (filter (\<lambda>e. em_target e = ToRoom (chat_room chatId)) ?ems) = 1"
    by (simp add: filter_map comp_def user_room_neq_chat_room)
  have one_user: "length (filter (\<lambda>e. em_target e = ToRoom (user_room p)) ?ems) = 1"
    if "p \<in> set (participants c)" for p
    using that assms(6)
    by (simp add: filter_map comp_def chat_room_neq_user_room user_room_inj filter_eq_distinct)
  have twice: "delivered st (sock_id k) ?ems =
      [\<lparr>em_target = ToRoom (chat_room chatId), em_event = ''new-message'',
        em_payload = NewMessage ?pm\<rparr>,
       \<lparr>em_target = ToRoom (user_room (data_userId k)), em_event = ''new-message'',
        em_payload = NewMessage ?pm\<rparr>]"
    if "k \<in> set (sockets st)" "data_userId k \<in> set (participants c)"
      "(chat_room chatId, sock_id k) \<in> set (rooms st)" for k
    using that assms(6)
    by (simp add: delivered_def filter_map comp_def personal_room_owner[OF inv that(1)]
          filter_eq_distinct)
  show ?thesis
    apply (rule exI[of _ ?pm])
    unfolding run msgs
    using pop one_chat one_user twice by auto
qed

text \<open>
  In the scenario A sends "hi" to \<open>c1\<close>: one emit to \<^verbatim>\<open>chat:c1\<close>, one to \<^verbatim>\<open>user:u1\<close>, one
  to \<^verbatim>\<open>user:u2\<close>, each carrying the stored message with A's name, email and avatar as its
  sender, and B's connection, which views \<open>c1\<close>, is delivered two of them.
\<close>

theorem send_fans_out_to_chat_and_personal_rooms_witness:
  "run initial [Connection alice, Connection bob, Join_chat bob ''c1''] = Some scenario_gateway \<and>
   Chat_findOne scenario_env scenario_db ''c1'' ''u1'' =
     Inr (Some \<lparr>chat_id = ''c1'', participants = [''u1'', ''u2''], lastMessage = None,
                lastMessageAt = None, createdAt = 1\<rparr>) \<and>
   snd (on_send_message scenario_env scenario_db alice ''c1'' ''hi'') =
     map (\<lambda>room.
       \<lparr>em_target = ToRoom room, em_event = ''new-message'',
        em_payload = NewMessage
          \<lparr>pm_message = \<lparr>message_id = ''m1'', msg_chat = ''c1'', sender = ''u1'',
                           msg_text = ''hi''\<rparr>,
           pm_sender = Some \<lparr>profile_id = ''u1'', profile_name = ''A'',
                              profile_email = ''a@x'', profile_avatar = []\<rparr>\<rparr>\<rparr>)
       [''chat:c1'', ''user:u1'', ''user:u2''] \<and>
   length (filter (\<lambda>e. em_target e = ToRoom ''chat:c1'')
     (snd (on_send_message scenario_env scenario_db alice ''c1'' ''hi''))) = 1 \<and>
   length (filter (\<lambda>e. em_target e = ToRoom ''user:u1'')
     (snd (on_send_message scenario_env scenario_db alice ''c1'' ''hi''))) = 1 \<and>
   length (filter (\<lambda>e. em_target e = ToRoom ''user:u2'')
     (snd (on_send_message scenario_env scenario_db alice ''c1'' ''hi''))) = 1 \<and>
   map em_target (delivered scenario_gateway ''s2''
     (snd (on_send_message scenario_env scenario_db alice ''c1'' ''hi''))) =
     [ToRoom ''chat:c1'', ToRoom ''user:u2'']"
proof -
  let ?c = "\<lparr>chat_id = ''c1'', participants = [''u1'', ''u2''], lastMessage = None,
                lastMessageAt = None, createdAt = 1\<rparr>"
  have a: "Chat_findOne scenario_env scenario_db ''c1'' (data_userId alice) = Inr (Some ?c)"
    by (simp add: scenario_defs)
  have t: "\<not> throws scenario_env Call_Message_create" "\<not> throws scenario_env Call_Chat_save"
    "\<not> throws scenario_env Call_Message_populate"
    by (simp_all add: scenario_env_def)
  have d: "distinct (participants ?c)" by simp
  have b: "bob \<in> set (sockets scenario_gateway)" by (simp add: scenario_gateway_value)
  have r: "(chat_room ''c1'', sock_id bob) \<in> set (rooms scenario_gateway)"
    by (simp add: scenario_gateway_value chat_room_def bob_def)
  have v: "snd (on_send_message scenario_env scenario_db alice ''c1'' ''hi'') =
     map (\<lambda>room.
       \<lparr>em_target = ToRoom room, em_event = ''new-message'',
        em_payload = NewMessage
          \<lparr>pm_message = \<lparr>message_id = ''m1'', msg_chat = ''c1'', sender = ''u1'',
                           msg_text = ''hi''\<rparr>,
           pm_sender = Some \<lparr>profile_id = ''u1'', profile_name = ''A'',
                              profile_email = ''a@x'', profile_avatar = []\<rparr>\<rparr>\<rparr>)
       [''chat:c1'', ''user:u1'', ''user:u2'']"
    by (simp add: on_send_message_def send_message_try_def Message_create_def Chat_save_def
          Message_populate_def scenario_defs Let_def)
  from send_fans_out_to_chat_and_personal_rooms[OF run_scenario_gateway a t d, of "''hi''"]
    b r
  have "length (filter (\<lambda>e. em_target e = ToRoom (chat_room ''c1''))
           (snd (on_send_message scenario_env scenario_db alice ''c1'' ''hi''))) = 1 \<and>
        length (filter (\<lambda>e. em_target e = ToRoom (user_room ''u1''))
           (snd (on_send_message scenario_env scenario_db alice ''c1'' ''hi''))) = 1 \<and>
        length (filter (\<lambda>e. em_target e = ToRoom (user_room ''u2''))
           (snd (on_send_message scenario_env scenario_db alice ''c1'' ''hi''))) = 1 \<and>
        map em_target (delivered scenario_gateway (sock_id bob)
           (snd (on_send_message scenario_env scenario_db alice ''c1'' ''hi''))) =
          [ToRoom (chat_room ''c1''), ToRoom (user_room (data_userId bob))]"
    by (auto simp: bob_def)
  then have "length (filter (\<lambda>e. em_target e = ToRoom ''chat:c1'')
           (snd (on_send_message scenario_env scenario_db alice ''c1'' ''hi''))) = 1 \<and>
        length (filter (\<lambda>e. em_target e = ToRoom ''user:u1'')
           (snd (on_send_message scenario_env scenario_db alice ''c1'' ''hi''))) = 1 \<and>
        length (filter (\<lambda>e. em_target e = ToRoom ''user:u2'')
           (snd (on_send_message scenario_env scenario_db alice ''c1'' ''hi''))) = 1 \<and>
        map em_target (delivered scenario_gateway ''s2''
           (snd (on_send_message scenario_env scenario_db alice ''c1'' ''hi''))) =
          [ToRoom ''chat:c1'', ToRoom ''user:u2'']"
    by (simp add: chat_room_def user_room_def bob_def)
  moreover have "Chat_findOne scenario_env scenario_db ''c1'' ''u1'' =
     Inr (Some \<lparr>chat_id = ''c1'', participants = [''u1'', ''u2''], lastMessage = None,
                lastMessageAt = None, createdAt = 1\<rparr>)"
    using a by (simp add: alice_def)
  ultimately show ?thesis using v run_scenario_gateway by blast
qed

section \<open>Presence\<close>

text \<open>
  Claim C3. When the middleware admits a handshake with identity \<open>userId\<close>, the state
  right after the connection handler maps \<open>userId\<close> to the connection's handle in the
  online-users map, so the identity is among the map's keys; and in the state right
  after that connection's disconnect, whatever happened in between, the map has no entry
  for \<open>userId\<close>.
\<close>

theorem admission_registers_and_disconnect_unregisters:
  assumes "fst (io_use env db token) = Admit userId"
  shows "Map_get (onlineUsers (fst (handshake env db st sid token))) userId = Some sid \<and>
         userId \<in> set (Map_keys (onlineUsers (fst (handshake env db st sid token)))) \<and>
         Map_get (onlineUsers (fst (transport_disconnect st'
                    \<lparr>sock_id = sid, data_userId = userId\<rparr>))) userId = None \<and>
         userId \<notin> set (Map_keys (onlineUsers (fst (transport_disconnect st'
                    \<lparr>sock_id = sid, data_userId = userId\<rparr>))))"
  using assms
  by (simp add: handshake_def onlineUsers_transport_connect onlineUsers_transport_disconnect
        Map_get_Map_set Map_get_Map_delete Map_keys_Map_set Map_keys_Map_delete)

text \<open>A's token is verified and resolved to \<open>u1\<close>; the handshake registers \<open>u1\<close>.\<close>

theorem admission_registers_and_disconnect_unregisters_witness:
  "fst (io_use scenario_env scenario_db (Some ''token-a'')) = Admit ''u1'' \<and>
   Map_get (onlineUsers (fst (handshake scenario_env scenario_db initial ''s1'' (Some ''token-a''))))
     ''u1'' = Some ''s1'' \<and>
   Map_get (onlineUsers (fst (transport_disconnect scenario_gateway alice))) ''u1'' = None"
proof -
  have a: "fst (io_use scenario_env scenario_db (Some ''token-a'')) = Admit ''u1''"
    by (simp add: io_use_def scenario_defs)
  show ?thesis
    using a admission_registers_and_disconnect_unregisters[OF a, of initial "''s1''" scenario_gateway]
    by (simp add: alice_def)
qed

text \<open>
  Claim C4, as the handler implements it. An admitted connection is delivered exactly one
  event of its own admission, \<^verbatim>\<open>online-users\<close>, and its \<open>userIds\<close> are the keys of the
  online-users map as they were just before this connection was registered (the emit
  precedes the \<^verbatim>\<open>set\<close>). So the list holds the connection's own identity exactly when
  that identity already had an entry, left by another connection of the same identity;
  after the handler the map's keys are the listed ones together with the own identity.
\<close>

theorem online_users_snapshot_precedes_registration:
  "delivered st' (sock_id sock) (snd (transport_connect st sock)) =
     [\<lparr>em_target = ToSocket (sock_id sock), em_event = ''online-users'',
       em_payload = OnlineUsers (Map_keys (onlineUsers st))\<rparr>] \<and>
   (data_userId sock \<in> set (Map_keys (onlineUsers st))
      \<longleftrightarrow> Map_get (onlineUsers st) (data_userId sock) \<noteq> None) \<and>
   set (Map_keys (onlineUsers (fst (transport_connect st sock)))) =
     insert (data_userId sock) (set (Map_keys (onlineUsers st)))"
  by (simp add: emissions_transport_connect delivered_def onlineUsers_transport_connect
        Map_keys_Map_set Map_keys_Map_get)

text \<open>With A and B online, a further connection is told of \<open>u1\<close> and \<open>u2\<close>.\<close>

theorem online_users_snapshot_precedes_registration_witness:
  "delivered scenario_gateway ''s3'' (snd (transport_connect scenario_gateway alice_again)) =
     [\<lparr>em_target = ToSocket ''s3'', em_event = ''online-users'',
       em_payload = OnlineUsers [''u1'', ''u2'']\<rparr>] \<and>
   set (Map_keys (onlineUsers (fst (transport_connect scenario_gateway alice_again)))) =
     {''u1'', ''u2''}"
  using online_users_snapshot_precedes_registration[of scenario_gateway alice_again scenario_gateway]
  by (simp add: scenario_gateway_value alice_again_def Map_keys_def insert_absorb)

text \<open>
  A is connected as \<open>s1\<close> and connects again as \<open>s3\<close>: the \<^verbatim>\<open>online-users\<close> event delivered
  to \<open>s3\<close> lists \<open>u1\<close>, the identity of \<open>s3\<close> itself.
\<close>

theorem online_users_lists_own_identity:
  "run initial [Connection alice, Connection alice_again] = Some two_sessions \<and>
   data_userId alice_again = ''u1'' \<and>
   delivered two_sessions (sock_id alice_again)
     (snd (transport_connect (fst (transport_connect initial alice)) alice_again)) =
     [\<lparr>em_target = ToSocket ''s3'', em_event = ''online-users'',
       em_payload = OnlineUsers [''u1'']\<rparr>]"
  using run_two_sessions by (simp add: scenario_defs Let_def)

text \<open>
  Claim C5. The disconnect handler deletes by identity. Let \<open>c1\<close> and \<open>c2\<close> be two
  connections of one identity. Admitting \<open>c2\<close> after \<open>c1\<close> makes the entry of the
  identity point to \<open>c2\<close>. When \<open>c1\<close> then disconnects while \<open>c2\<close> is connected, the
  identity has no entry afterwards although \<open>c2\<close> is still connected, and the single
  emit is a \<^verbatim>\<open>user-offline\<close> broadcast for the identity, which \<open>c2\<close> itself is delivered.
\<close>

theorem disconnect_unregisters_by_identity_alone:
  assumes "c2 \<in> set (sockets st)" and "sock_id c1 \<noteq> sock_id c2"
    and "data_userId c1 = data_userId c2"
  shows "Map_get (onlineUsers (fst (transport_connect (fst (transport_connect st0 c1)) c2)))
           (data_userId c2) = Some (sock_id c2) \<and>
         Map_get (onlineUsers (fst (transport_disconnect st c1))) (data_userId c2) = None \<and>
         c2 \<in> set (sockets (fst (transport_disconnect st c1))) \<and>
         snd (transport_disconnect st c1) =
           [\<lparr>em_target = Broadcast (sock_id c1), em_event = ''user-offline'',
             em_payload = UserId (data_userId c2)\<rparr>] \<and>
         delivered (fst (transport_disconnect st c1)) (sock_id c2)
             (snd (transport_disconnect st c1)) =
           [\<lparr>em_target = Broadcast (sock_id c1), em_event = ''user-offline'',
             em_payload = UserId (data_userId c2)\<rparr>]"
  using assms
  by (auto simp: onlineUsers_transport_connect onlineUsers_transport_disconnect
        sockets_transport_disconnect emissions_transport_disconnect Map_get_Map_set
        Map_get_Map_delete delivered_def)

text \<open>
  A connects as \<open>s1\<close>, then as \<open>s3\<close>, then \<open>s1\<close> closes: \<open>u1\<close> has no entry, \<open>s3\<close> is
  still connected and is told that \<open>u1\<close> went offline.
\<close>

theorem disconnect_unregisters_by_identity_alone_witness:
  "Map_get (onlineUsers two_sessions) ''u1'' = Some ''s3'' \<and>
   alice_again \<in> set (sockets two_sessions) \<and>
   Map_get (onlineUsers (fst (transport_disconnect two_sessions alice))) ''u1'' = None \<and>
   alice_again \<in> set (sockets (fst (transport_disconnect two_sessions alice))) \<and>
   delivered (fst (transport_disconnect two_sessions alice)) ''s3''
       (snd (transport_disconnect two_sessions alice)) =
     [\<lparr>em_target = Broadcast ''s1'', em_event = ''user-offline'', em_payload = UserId ''u1''\<rparr>]"
proof -
  have a: "alice_again \<in> set (sockets two_sessions)" by (simp add: two_sessions_value)
  have b: "sock_id alice \<noteq> sock_id alice_again" by (simp add: alice_def alice_again_def)
  have c: "data_userId alice = data_userId alice_again" by (simp add: alice_def alice_again_def)
  have d: "Map_get (onlineUsers two_sessions) ''u1'' = Some ''s3''"
    by (simp add: two_sessions_value Map_get_def)
  show ?thesis
    using a d disconnect_unregisters_by_identity_alone[OF a b c, of initial]
    by (auto simp: alice_def alice_again_def)
qed

text \<open>
  Claim C6. A disconnect emits exactly one event, a \<^verbatim>\<open>user-offline\<close> broadcast carrying
  the departing identity. Every other connection that is connected at that moment is
  delivered exactly that one event, and the departing connection is delivered none.
\<close>

theorem disconnect_broadcasts_user_offline:
  assumes "other \<in> set (sockets st)" and "sock_id other \<noteq> sock_id sock"
  shows "snd (transport_disconnect st sock) =
           [\<lparr>em_target = Broadcast (sock_id sock), em_event = ''user-offline'',
             em_payload = UserId (data_userId sock)\<rparr>] \<and>
         delivered (fst (transport_disconnect st sock)) (sock_id other)
           (snd (transport_disconnect st sock)) =
           [\<lparr>em_target = Broadcast (sock_id sock), em_event = ''user-offline'',
             em_payload = UserId (data_userId sock)\<rparr>] \<and>
         delivered (fst (transport_disconnect st sock)) (sock_id sock)
           (snd (transport_disconnect st sock)) = []"
  using assms
  by (auto simp: emissions_transport_disconnect delivered_def sockets_transport_disconnect)

text \<open>A's connection closes: B's connection is told once, A's own connection is not.\<close>

theorem disconnect_broadcasts_user_offline_witness:
  "delivered (fst (transport_disconnect scenario_gateway alice)) ''s2''
       (snd (transport_disconnect scenario_gateway alice)) =
     [\<lparr>em_target = Broadcast ''s1'', em_event = ''user-offline'', em_payload = UserId ''u1''\<rparr>] \<and>
   delivered (fst (transport_disconnect scenario_gateway alice)) ''s1''
       (snd (transport_disconnect scenario_gateway alice)) = []"
proof -
  have a: "bob \<in> set (sockets scenario_gateway)" by (simp add: scenario_gateway_value)
  have b: "sock_id bob \<noteq> sock_id alice" by (simp add: alice_def bob_def)
  show ?thesis
    using disconnect_broadcasts_user_offline[OF a b] by (auto simp: alice_def bob_def)
qed

section \<open>Typing relay\<close>

text \<open>
  Claim C7, as the handler implements it. For a typing signal from a connection of a
  state the gateway reaches by a run of events from its start, the first emit carries
  (sender identity, chatId, isTyping) to the chat's room with the sending connection
  excepted. When the lookup completes and finds the chat, and \<open>other\<close> is the first
  participant that differs from the sender's identity, the one further emit carries the
  same payload to the personal room of \<open>other\<close>; when the lookup throws, finds no chat,
  or the chat lists nobody else, there is no further emit. The sending connection is
  delivered none of the emits, and no connection of the sender's identity is delivered
  the one to the personal room. Every other connection that is joined to the chat's
  room, one of the sender's own identity included, is delivered the emit to that room.
\<close>

theorem typing_relay_targets:
  assumes "run initial es = Some st" and "sock \<in> set (sockets st)"
  shows "take 1 (on_typing env db sock chatId isTyping) =
           [\<lparr>em_target = ToRoomExcept (chat_room chatId) (sock_id sock), em_event = ''typing'',
             em_payload = TypingPayload (data_userId sock) chatId isTyping\<rparr>] \<and>
         (\<forall>c pre other post.
            Chat_findById env db chatId = Inr (Some c) \<and>
            participants c = pre @ other # post \<and>
            other \<noteq> data_userId sock \<and> (\<forall>p \<in> set pre. p = data_userId sock) \<longrightarrow>
            drop 1 (on_typing env db sock chatId isTyping) =
              [\<lparr>em_target = ToRoom (user_room other), em_event = ''typing'',
                em_payload = TypingPayload (data_userId sock) chatId isTyping\<rparr>]) \<and>
         (Chat_findById env db chatId = Inl Thrown \<or> Chat_findById env db chatId = Inr None \<longrightarrow>
            drop 1 (on_typing env db sock chatId isTyping) = []) \<and>
         (\<forall>c. Chat_findById env db chatId = Inr (Some c) \<and>
              (\<forall>p \<in> set (participants c). p = data_userId sock) \<longrightarrow>
            drop 1 (on_typing env db sock chatId isTyping) = []) \<and>
         delivered st (sock_id sock) (on_typing env db sock chatId isTyping) = [] \<and>
         (\<forall>k \<in> set (sockets st). data_userId k = data_userId sock \<longrightarrow>
            delivered st (sock_id k) (drop 1 (on_typing env db sock chatId isTyping)) = []) \<and>
         (\<forall>k \<in> set (sockets st).
            sock_id k \<noteq> sock_id sock \<and> (chat_room chatId, sock_id k) \<in> set (rooms st) \<longrightarrow>
            delivered st (sock_id k) (take 1 (on_typing env db sock chatId isTyping)) =
              [\<lparr>em_target = ToRoomExcept (chat_room chatId) (sock_id sock), em_event = ''typing'',
                em_payload = TypingPayload (data_userId sock) chatId isTyping\<rparr>])"
proof -
  have inv: "gw_inv st" using assms(1) by (rule run_initial_gw_inv)
  have own: "\<And>u k. k \<in> set (sockets st) \<Longrightarrow> u \<noteq> data_userId k
               \<Longrightarrow> (user_room u, sock_id k) \<notin> set (rooms st)"
    using personal_room_owner[OF inv] by simp
  have first: "take 1 (on_typing env db sock chatId isTyping) =
           [\<lparr>em_target = ToRoomExcept (chat_room chatId) (sock_id sock), em_event = ''typing'',
             em_payload = TypingPayload (data_userId sock) chatId isTyping\<rparr>]"
    by (simp add: on_typing_def Let_def)
  have second: "drop 1 (on_typing env db sock chatId isTyping) =
              [\<lparr>em_target = ToRoom (user_room other), em_event = ''typing'',
                em_payload = TypingPayload (data_userId sock) chatId isTyping\<rparr>]"
    if "Chat_findById env db chatId = Inr (Some c) \<and>
            participants c = pre @ other # post \<and>
            other \<noteq> data_userId sock \<and> (\<forall>p \<in> set pre. p = data_userId sock)"
    for c pre other post
  proof -
    from that have "find (\<lambda>p. p \<noteq> data_userId sock) (participants c) = Some other"
      by (simp add: find_after_prefix)
    with that show ?thesis by (simp add: on_typing_def Let_def)
  qed
  have silent: "drop 1 (on_typing env db sock chatId isTyping) = []"
    if "Chat_findById env db chatId = Inl Thrown \<or> Chat_findById env db chatId = Inr None"
    using that by (auto simp: on_typing_def Let_def)
  have alone: "drop 1 (on_typing env db sock chatId isTyping) = []"
    if "Chat_findById env db chatId = Inr (Some c) \<and>
          (\<forall>p \<in> set (participants c). p = data_userId sock)" for c
  proof -
    from that have "find (\<lambda>p. p \<noteq> data_userId sock) (participants c) = None"
      by (simp add: find_None_iff_all)
    with that show ?thesis by (simp add: on_typing_def Let_def)
  qed
  have self: "delivered st (sock_id sock) (on_typing env db sock chatId isTyping) = []"
    using assms(2)
    by (auto simp: on_typing_def Let_def delivered_def own
          split: sum.splits option.splits thrown.splits dest: find_holds)
  have same: "delivered st (sock_id k) (drop 1 (on_typing env db sock chatId isTyping)) = []"
    if "k \<in> set (sockets st)" "data_userId k = data_userId sock" for k
    using that
    by (auto simp: on_typing_def Let_def delivered_def own
          split: sum.splits option.splits thrown.splits dest: find_holds)
  have room: "delivered st (sock_id k) (take 1 (on_typing env db sock chatId isTyping)) =
              [\<lparr>em_target = ToRoomExcept (chat_room chatId) (sock_id sock), em_event = ''typing'',
                em_payload = TypingPayload (data_userId sock) chatId isTyping\<rparr>]"
    if "sock_id k \<noteq> sock_id sock \<and> (chat_room chatId, sock_id k) \<in> set (rooms st)" for k
    using that unfolding delivered_def first by simp
  show ?thesis
    apply (intro conjI allI impI ballI)
    subgoal by (rule first)
    subgoal for c pre other post by (rule second)
    subgoal by (rule silent)
    subgoal for c by (rule alone)
    subgoal by (rule self)
    subgoal for k by (rule same)
    subgoal for k by (rule room)
    done
qed

text \<open>
  B, who views \<open>c1\<close>, types: one emit to \<^verbatim>\<open>chat:c1\<close> except \<open>s2\<close>, one to \<^verbatim>\<open>user:u1\<close>;
  B's connection is delivered neither, A's connection the second.
\<close>

theorem typing_relay_targets_witness:
  "run initial [Connection alice, Connection bob, Join_chat bob ''c1''] = Some scenario_gateway \<and>
   bob \<in> set (sockets scenario_gateway) \<and>
   on_typing scenario_env scenario_db bob ''c1'' True =
     [\<lparr>em_target = ToRoomExcept ''chat:c1'' ''s2'', em_event = ''typing'',
       em_payload = TypingPayload ''u2'' ''c1'' True\<rparr>,
      \<lparr>em_target = ToRoom ''user:u1'', em_event = ''typing'',
       em_payload = TypingPayload ''u2'' ''c1'' True\<rparr>] \<and>
   delivered scenario_gateway ''s2'' (on_typing scenario_env scenario_db bob ''c1'' True) = [] \<and>
   delivered scenario_gateway ''s1'' (on_typing scenario_env scenario_db bob ''c1'' True) =
     [\<lparr>em_target = ToRoom ''user:u1'', em_event = ''typing'',
       em_payload = TypingPayload ''u2'' ''c1'' True\<rparr>]"
proof -
  have b: "bob \<in> set (sockets scenario_gateway)" by (simp add: scenario_gateway_value)
  have v: "on_typing scenario_env scenario_db bob ''c1'' True =
     [\<lparr>em_target = ToRoomExcept ''chat:c1'' ''s2'', em_event = ''typing'',
       em_payload = TypingPayload ''u2'' ''c1'' True\<rparr>,
      \<lparr>em_target = ToRoom ''user:u1'', em_event = ''typing'',
       em_payload = TypingPayload ''u2'' ''c1'' True\<rparr>]"
    by (simp add: on_typing_def scenario_defs Let_def)
  have a: "delivered scenario_gateway ''s1'' (on_typing scenario_env scenario_db bob ''c1'' True) =
     [\<lparr>em_target = ToRoom ''user:u1'', em_event = ''typing'',
       em_payload = TypingPayload ''u2'' ''c1'' True\<rparr>]"
    unfolding v by (simp add: scenario_gateway_value delivered_def)
  from typing_relay_targets[OF run_scenario_gateway b, of scenario_env scenario_db "''c1''" True]
  have "delivered scenario_gateway (sock_id bob)
          (on_typing scenario_env scenario_db bob ''c1'' True) = []"
    by blast
  with a b v run_scenario_gateway show ?thesis by (simp add: bob_def)
qed

text \<open>
  A types on \<open>s1\<close> while A's second connection \<open>s3\<close> views \<open>c1\<close>: \<open>s3\<close>, a connection of
  the sender's own identity, is delivered A's typing event through the chat's room. And
  when the lookup throws, B's typing signal is forwarded to the chat's room only,
  although \<open>c1\<close> exists and lists A.
\<close>

theorem typing_reaches_other_connection_of_sender:
  "run initial [Connection alice, Connection bob, Connection alice_again,
                Join_chat alice_again ''c1''] = Some two_devices_in_chat \<and>
   data_userId alice_again = data_userId alice \<and>
   delivered two_devices_in_chat (sock_id alice_again)
       (on_typing scenario_env scenario_db alice ''c1'' True) =
     [\<lparr>em_target = ToRoomExcept ''chat:c1'' ''s1'', em_event = ''typing'',
       em_payload = TypingPayload ''u1'' ''c1'' True\<rparr>] \<and>
   find (\<lambda>c. chat_id c = ''c1'') (chats scenario_db) =
     Some \<lparr>chat_id = ''c1'', participants = [''u1'', ''u2''], lastMessage = None,
           lastMessageAt = None, createdAt = 1\<rparr> \<and>
   on_typing failing_findById_env scenario_db bob ''c1'' True =
     [\<lparr>em_target = ToRoomExcept ''chat:c1'' ''s2'', em_event = ''typing'',
       em_payload = TypingPayload ''u2'' ''c1'' True\<rparr>]"
  using run_two_devices_in_chat
  by (simp add: two_devices_in_chat_value on_typing_def scenario_defs Let_def)

section \<open>Admission without a credential\<close>

text \<open>
  Claim C8. When the handshake carries no token or an empty one, the middleware answers
  "Unauthorized" and has handed nothing to \<^verbatim>\<open>verifyToken\<close>; the connection handler does
  not run, so the gateway state, and with it the online-users map, is what it was and
  nothing is emitted.
\<close>

theorem missing_credential_rejected:
  assumes "token = None \<or> token = Some []"
  shows "io_use env db token = (Reject ''Unauthorized'', []) \<and>
         handshake env db st sid token = (st, [])"
  using assms by (auto simp: io_use_def handshake_def)

theorem missing_credential_rejected_witness:
  "io_use scenario_env scenario_db (Some []) = (Reject ''Unauthorized'', []) \<and>
   handshake scenario_env scenario_db initial ''s1'' None = (initial, [])"
  using missing_credential_rejected[of "Some []" scenario_env scenario_db initial "''s1''"]
    missing_credential_rejected[of None scenario_env scenario_db initial "''s1''"]
  by simp

section \<open>Chat summary after a send\<close>

text \<open>
  Claim C9. After a successful send the store holds the new message at the end of the
  messages, every chat with another identifier is as it was, and the chat with the
  requested identifier is the chat that was found with its last-message reference set
  to the new message's identifier and its last-activity time set to the time of the
  send; its identifier, participants and creation time are those it had. The users are
  untouched.
\<close>

theorem send_updates_chat_summary:
  assumes "Chat_findOne env db chatId (data_userId sock) = Inr (Some c)"
    and "\<not> throws env Call_Message_create" and "\<not> throws env Call_Chat_save"
    and "\<not> throws env Call_Message_populate"
  shows "messages (fst (on_send_message env db sock chatId txt)) =
           messages db @ [\<lparr>message_id = new_ObjectId env, msg_chat = chatId,
                            sender = data_userId sock, msg_text = txt\<rparr>] \<and>
         chats (fst (on_send_message env db sock chatId txt)) =
           map (\<lambda>d. if chat_id d = chatId
                    then \<lparr>chat_id = chat_id c, participants = participants c,
                          lastMessage = Some (new_ObjectId env),
                          lastMessageAt = Some (new_Date env), createdAt = createdAt c\<rparr>
                    else d) (chats db) \<and>
         find (\<lambda>d. chat_id d = chatId) (chats (fst (on_send_message env db sock chatId txt))) =
           Some \<lparr>chat_id = chatId, participants = participants c,
                 lastMessage = Some (new_ObjectId env),
                 lastMessageAt = Some (new_Date env), createdAt = createdAt c\<rparr> \<and>
         users (fst (on_send_message env db sock chatId txt)) = users db"
proof -
  from assms(1) have c: "c \<in> set (chats db)" "chat_id c = chatId"
    by (simp_all add: Chat_findOne_found)
  have upd: "c\<lparr>lastMessage := Some (new_ObjectId env), lastMessageAt := Some (new_Date env)\<rparr> =
      \<lparr>chat_id = chatId, participants = participants c,
       lastMessage = Some (new_ObjectId env),
       lastMessageAt = Some (new_Date env), createdAt = createdAt c\<rparr>"
    using c(2) by simp
  show ?thesis
    unfolding send_message_try_found[OF assms] upd
    using c by (simp add: find_map_replace[where f = chat_id])
qed

text \<open>A's "hi" to \<open>c1\<close>: \<open>c1\<close> now refers to message \<open>m1\<close> and keeps its two participants.\<close>

theorem send_updates_chat_summary_witness:
  "Chat_findOne scenario_env scenario_db ''c1'' ''u1'' =
     Inr (Some \<lparr>chat_id = ''c1'', participants = [''u1'', ''u2''], lastMessage = None,
                lastMessageAt = None, createdAt = 1\<rparr>) \<and>
   find (\<lambda>d. chat_id d = ''c1'')
     (chats (fst (on_send_message scenario_env scenario_db alice ''c1'' ''hi''))) =
     Some \<lparr>chat_id = ''c1'', participants = [''u1'', ''u2''], lastMessage = Some ''m1'',
           lastMessageAt = Some 1000, createdAt = 1\<rparr> \<and>
   messages (fst (on_send_message scenario_env scenario_db alice ''c1'' ''hi'')) =
     [\<lparr>message_id = ''m1'', msg_chat = ''c1'', sender = ''u1'', msg_text = ''hi''\<rparr>]"
proof -
  have a: "Chat_findOne scenario_env scenario_db ''c1'' (data_userId alice) =
     Inr (Some \<lparr>chat_id = ''c1'', participants = [''u1'', ''u2''], lastMessage = None,
                lastMessageAt = None, createdAt = 1\<rparr>)"
    by (simp add: scenario_defs)
  have t: "\<not> throws scenario_env Call_Message_create" "\<not> throws scenario_env Call_Chat_save"
    "\<not> throws scenario_env Call_Message_populate"
    by (simp_all add: scenario_env_def)
  show ?thesis
    using a send_updates_chat_summary[OF a t, of "''hi''"]
    by (auto simp: alice_def scenario_env_def scenario_db_def)
qed

section \<open>Disjoint channel keys\<close>

text \<open>
  Claim C10. A chat room's key never equals a personal room's key, whatever the chat
  identifier and the identity are; and a join-chat request, whatever chat identifier it
  carries, leaves the membership of every connection in every personal room as it was.
\<close>

theorem chat_and_user_rooms_disjoint:
  "chat_room chatId \<noteq> user_room userId \<and>
   ((user_room userId, sid) \<in> set (rooms (on_join_chat st sock chatId))
      \<longleftrightarrow> (user_room userId, sid) \<in> set (rooms st))"
  by (auto simp: on_join_chat_def socket_join_def chat_room_neq_user_room user_room_neq_chat_room)

text \<open>A asks to join the chat named \<^verbatim>\<open>user:u2\<close> and does not end up in B's personal room.\<close>

theorem chat_and_user_rooms_disjoint_witness:
  "chat_room ''user:u2'' \<noteq> user_room ''u2'' \<and>
   (user_room ''u2'', ''s1'') \<notin> set (rooms (on_join_chat scenario_gateway alice ''user:u2''))"
  using chat_and_user_rooms_disjoint[of "''user:u2''" "''u2''" "''s1''" scenario_gateway alice]
  by (simp add: scenario_gateway_value user_room_def)

end
